theory Spec2Isabelle
  imports
    Main
    "HOL-Library.Word"
    "HOL-Library.Sublist"
    "HOL-Library.Char_ord"
    "HOL-Library.List_Lexorder"
    "HOL-Library.Multiset"
begin

unbundle bit_operations_syntax

section \<open>Personal task manager: the Task class and the TaskManager class\<close>

text \<open>
  The development embeds the classes \<open>Task\<close> and \<open>TaskManager\<close> of
  \<^verbatim>\<open>PersonalTaskManager.py\<close>. The window class \<open>TaskGUI\<close> only calls into
  them and is not modelled.

  Conventions of the embedding.
  \<^item> Python values are the values that \<open>json.load\<close> returns: \<open>None\<close>, a bool, an
    integer, a float, a string, a list, a dict with string keys. A float is
    the 64 bits of its IEEE 754 form. A Python string is the list of its code
    points, so that surrogates can be told apart.
  \<^item> A Task object holds five such values (\<open>Task_object\<close>): the constructor and
    \<open>load_tasks\<close> store whatever they are given. The data model of the
    specification types the five attributes as strings: the record \<open>Task\<close>, with
    strings of 8-bit characters, which stand for the code points below 256.
    The operations of the store after its construction are modelled on the
    data model; the constructor, \<open>to_dict\<close> and \<open>load_tasks\<close> on Task objects.
    Comparison of strings is lexicographic on the characters' codes
    (\<open>Char_ord\<close>, \<open>List_Lexorder\<close>), as Python compares code points.
  \<^item> \<open>json.load\<close> and \<open>json.dump\<close> belong to the Python library. A file is
    modelled by what \<open>open\<close> and \<open>json.load\<close> make of it: it is absent, it holds
    text that \<open>json.load\<close> rejects with \<open>JSONDecodeError\<close>, or it holds a document,
    given as the Python value \<open>json.load\<close> returns. \<open>json.dump\<close> writes every
    character beyond ASCII as an escape and \<open>json.load\<close> reads two escapes that
    form a surrogate pair as one character: \<open>json_dump\<close> is the document that
    a later \<open>json.load\<close> finds. Input and output failures other than a
    missing file (permissions, a full disk) and the limits of the interpreter
    (the recursion depth, the digits of an integer that is converted to or
    from text) are not modelled.
  \<^item> Python lists are mutable objects. They live in a heap of list objects, and
    \<open>self.tasks\<close> is an address, so that sharing between the store and a
    caller is visible. No method assigns to an attribute of a Task after its
    construction, so Tasks are values.
  \<^item> \<open>uuid.uuid4()\<close> draws 16 random bytes. The bytes are an explicit argument,
    a 128-bit word.
\<close>

subsection \<open>Values that \<open>json.load\<close> returns\<close>

text \<open>A string literal of the source, as the list of its code points.\<close>

definition str_lit :: "string \<Rightarrow> nat list" where
  "str_lit s = map of_char s"

datatype json =
    JNull
  | JBool bool
  | JNum int
  | JFloat "64 word"
  | JStr "nat list"
  | JList "json list"
  | JDict "(nat list \<times> json) list"

text \<open>Truth value testing, as the operator \<open>or\<close> applies it. The floats that
  equal zero are \<open>0.0\<close> and \<open>-0.0\<close>, which has the sign bit only.\<close>

fun truthy :: "json \<Rightarrow> bool" where
  "truthy JNull = False"
| "truthy (JBool b) = b"
| "truthy (JNum n) = (n \<noteq> 0)"
| "truthy (JFloat x) = (x \<noteq> 0 \<and> x \<noteq> 0x8000000000000000)"
| "truthy (JStr s) = (s \<noteq> [])"
| "truthy (JList xs) = (xs \<noteq> [])"
| "truthy (JDict kvs) = (kvs \<noteq> [])"

datatype error =
    KeyError "nat list"
  | TypeError
  | AttributeError string

text \<open>
  The Python exceptions that reach the caller: \<open>KeyError\<close> with the key that is
  missing, \<open>TypeError\<close>, and \<open>AttributeError\<close> with the name that is missing.
\<close>

definition and_then :: "error + 'a \<Rightarrow> ('a \<Rightarrow> error + 'b) \<Rightarrow> error + 'b" where
  "and_then r f = (case r of Inl e \<Rightarrow> Inl e | Inr x \<Rightarrow> f x)"

text \<open>A list comprehension whose element expression may raise: the first raise ends it.\<close>

fun map_err :: "('a \<Rightarrow> error + 'b) \<Rightarrow> 'a list \<Rightarrow> error + 'b list" where
  "map_err f [] = Inr []"
| "map_err f (x # xs) =
     (case f x of
        Inl e \<Rightarrow> Inl e
      | Inr y \<Rightarrow> (case map_err f xs of Inl e \<Rightarrow> Inl e | Inr ys \<Rightarrow> Inr (y # ys)))"

subsection \<open>uuid.uuid4 and its string form\<close>

text \<open>
  \<open>uuid4\<close> sets the variant and the version in the 128 random bits;
  \<open>str\<close> prints them as 32 lower-case hexadecimal digits in groups of
  8, 4, 4, 4 and 12.
\<close>

definition uuid4 :: "128 word \<Rightarrow> 128 word" where
  "uuid4 r =
     (((r AND NOT (push_bit 48 0xc000)) OR push_bit 48 0x8000)
        AND NOT (push_bit 64 0xf000)) OR push_bit 76 4"

definition hex_digit :: "nat \<Rightarrow> char" where
  "hex_digit d = ''0123456789abcdef'' ! (d mod 16)"

fun hex_pad :: "nat \<Rightarrow> nat \<Rightarrow> string" where
  "hex_pad 0 n = []"
| "hex_pad (Suc k) n = hex_pad k (n div 16) @ [hex_digit n]"

definition uuid_str :: "128 word \<Rightarrow> string" where
  "uuid_str u =
     (let h = hex_pad 32 (unat u)
      in take 8 h @ ''-'' @ take 4 (drop 8 h) @ ''-'' @ take 4 (drop 12 h) @ ''-''
           @ take 4 (drop 16 h) @ ''-'' @ drop 20 h)"

subsection \<open>json.dump followed by json.load\<close>

text \<open>
  \<open>json.dump\<close> writes a character beyond ASCII as an escape of four
  hexadecimal digits, a character beyond the basic plane as the two escapes
  of its surrogate pair, and a lone surrogate as its own escape. \<open>json.load\<close> reads a high surrogate escape that
  is directly followed by a low surrogate escape as the one character of the
  pair. So a string comes back with every such pair of adjacent code points
  merged, from left to right, and otherwise as it was.
\<close>

definition high_surrogate :: "nat \<Rightarrow> bool" where
  "high_surrogate c = (0xD800 \<le> c \<and> c \<le> 0xDBFF)"

definition low_surrogate :: "nat \<Rightarrow> bool" where
  "low_surrogate c = (0xDC00 \<le> c \<and> c \<le> 0xDFFF)"

fun merge_surrogates :: "nat list \<Rightarrow> nat list" where
  "merge_surrogates (h # l # cs) =
     (if high_surrogate h \<and> low_surrogate l
      then (0x10000 + (h - 0xD800) * 0x400 + (l - 0xDC00)) # merge_surrogates cs
      else h # merge_surrogates (l # cs))"
| "merge_surrogates cs = cs"

text \<open>A float that is not a number has all exponent bits and some fraction
  bit. \<open>json.dump\<close> writes each of them as \<open>NaN\<close>, which \<open>json.load\<close> reads as
  the value of \<open>float('nan')\<close>; every other float is written by \<open>repr\<close> and
  comes back as it was.\<close>

definition is_nan :: "64 word \<Rightarrow> bool" where
  "is_nan x = (take_bit 11 (drop_bit 52 x) = 0x7FF \<and> take_bit 52 x \<noteq> 0)"

text \<open>The value that \<open>json.load\<close> returns for the text that \<open>json.dump\<close> writes
  for a value: the strings, keys included, with their pairs merged.\<close>

fun reload :: "json \<Rightarrow> json" where
  "reload (JStr s) = JStr (merge_surrogates s)"
| "reload (JFloat x) = JFloat (if is_nan x then 0x7FF8000000000000 else x)"
| "reload (JList xs) = JList (map reload xs)"
| "reload (JDict kvs) = JDict (map (\<lambda>(k, v). (merge_surrogates k, reload v)) kvs)"
| "reload v = v"

subsection \<open>class Task\<close>

text \<open>A task of the data model: five strings.\<close>

record Task =
  id_attr :: string
  name :: string
  description :: string
  priority :: string
  due_date :: string

text \<open>
  A Task object: \<open>__init__(self, name, description, priority, due_date,
  task_id=None)\<close> stores its arguments as they are, and \<open>task_id\<close> if it is
  truthy; otherwise the string of a new UUID. \<open>r\<close> is what \<open>uuid.uuid4()\<close>
  draws if it is called. An omitted \<open>task_id\<close> is \<open>None\<close>.
\<close>

record Task_object =
  attr_id :: json
  attr_name :: json
  attr_description :: json
  attr_priority :: json
  attr_due_date :: json

definition Task_init :: "json \<Rightarrow> json \<Rightarrow> json \<Rightarrow> json \<Rightarrow> json \<Rightarrow> 128 word \<Rightarrow> Task_object" where
  "Task_init nm descr prio due task_id r =
     \<lparr> attr_id = (if truthy task_id then task_id else JStr (str_lit (uuid_str (uuid4 r)))),
       attr_name = nm, attr_description = descr, attr_priority = prio, attr_due_date = due \<rparr>"

definition to_dict :: "Task_object \<Rightarrow> json" where
  "to_dict t =
     JDict [(str_lit ''id'', attr_id t),
            (str_lit ''name'', attr_name t),
            (str_lit ''description'', attr_description t),
            (str_lit ''priority'', attr_priority t),
            (str_lit ''due_date'', attr_due_date t)]"

text \<open>The Task object of a task of the data model.\<close>

definition obj_of :: "Task \<Rightarrow> Task_object" where
  "obj_of t =
     \<lparr> attr_id = JStr (str_lit (id_attr t)),
       attr_name = JStr (str_lit (name t)),
       attr_description = JStr (str_lit (description t)),
       attr_priority = JStr (str_lit (priority t)),
       attr_due_date = JStr (str_lit (due_date t)) \<rparr>"

subsection \<open>The heap of list objects and the disk\<close>

type_synonym addr = nat

datatype file_content = Absent | Garbled | Document json

record world =
  heap :: "addr \<Rightarrow> Task list"
  brk :: addr
  files :: "string \<Rightarrow> file_content"
  writes :: "(string \<times> json) list"

text \<open>
  \<open>heap\<close> holds the list objects, \<open>brk\<close> is the first address not yet in use,
  \<open>files\<close> maps a path to its file and \<open>writes\<close> records every
  \<open>json.dump\<close> in order.
\<close>

definition new_list :: "Task list \<Rightarrow> world \<Rightarrow> addr \<times> world" where
  "new_list xs w = (brk w, w\<lparr> heap := (heap w)(brk w := xs), brk := Suc (brk w) \<rparr>)"

text \<open>What a caller can do to a list it holds: any mutation in place leaves
  some contents \<open>xs\<close> at the address; \<open>a.append(t)\<close> is one.\<close>

definition list_set :: "addr \<Rightarrow> Task list \<Rightarrow> world \<Rightarrow> world" where
  "list_set a xs w = w\<lparr> heap := (heap w)(a := xs) \<rparr>"

definition list_append :: "addr \<Rightarrow> Task \<Rightarrow> world \<Rightarrow> world" where
  "list_append a t w = list_set a (heap w a @ [t]) w"

subsection \<open>class TaskManager\<close>

record TaskManager =
  filename :: string
  tasks :: addr

definition task_seq :: "TaskManager \<Rightarrow> world \<Rightarrow> Task list" where
  "task_seq self w = heap w (tasks self)"

subsubsection \<open>load_tasks\<close>

text \<open>\<open>task[k]\<close>: an object is looked up, anything else raises \<open>TypeError\<close>.
  Of a repeated member name \<open>json.load\<close> keeps the last value.\<close>

fun subscript :: "json \<Rightarrow> nat list \<Rightarrow> error + json" where
  "subscript (JDict kvs) k =
     (case map_of (rev kvs) k of None \<Rightarrow> Inl (KeyError k) | Some v \<Rightarrow> Inr v)"
| "subscript v k = Inl TypeError"

text \<open>\<open>for task in data\<close>: a list gives its items, a dict its keys, a string
  its characters; \<open>None\<close>, a bool and a number are not iterable.\<close>

fun iterate :: "json \<Rightarrow> error + json list" where
  "iterate (JList xs) = Inr xs"
| "iterate (JDict kvs) = Inr (map JStr (rev (remdups (rev (map fst kvs)))))"
| "iterate (JStr s) = Inr (map (\<lambda>c. JStr [c]) s)"
| "iterate v = Inl TypeError"

text \<open>The five subscripts of one record, in the order the call evaluates them.\<close>

definition read_record :: "json \<Rightarrow> error + (json \<times> json \<times> json \<times> json \<times> json)" where
  "read_record task =
     and_then (subscript task (str_lit ''name'')) (\<lambda>n.
     and_then (subscript task (str_lit ''description'')) (\<lambda>d.
     and_then (subscript task (str_lit ''priority'')) (\<lambda>p.
     and_then (subscript task (str_lit ''due_date'')) (\<lambda>dd.
     and_then (subscript task (str_lit ''id'')) (\<lambda>i. Inr (n, d, p, dd, i))))))"

text \<open>The constructor calls of the comprehension; \<open>rnd k\<close> is the random word
  of the record at position \<open>k\<close>. The constructor does not raise.\<close>

fun build_all :: "nat \<Rightarrow> (json \<times> json \<times> json \<times> json \<times> json) list \<Rightarrow> (nat \<Rightarrow> 128 word) \<Rightarrow> Task_object list" where
  "build_all k [] rnd = []"
| "build_all k ((n, d, p, dd, i) # raws) rnd =
     Task_init n d p dd i (rnd k) # build_all (Suc k) raws rnd"

text \<open>The comprehension \<open>[Task(...) for task in data]\<close>.\<close>

definition tasks_of_data :: "json \<Rightarrow> (nat \<Rightarrow> 128 word) \<Rightarrow> error + Task_object list" where
  "tasks_of_data data rnd =
     and_then (iterate data) (\<lambda>items.
     and_then (map_err read_record items) (\<lambda>raws. Inr (build_all 0 raws rnd)))"

definition load_tasks :: "string \<Rightarrow> (nat \<Rightarrow> 128 word) \<Rightarrow> world \<Rightarrow> error + Task_object list" where
  "load_tasks fname rnd w =
     (case files w fname of
        Absent \<Rightarrow> Inr []
      | Garbled \<Rightarrow> Inr []
      | Document data \<Rightarrow> tasks_of_data data rnd)"

text \<open>\<open>__init__(self, filename)\<close>: the values of \<open>self.filename\<close> and of the list
  that \<open>self.tasks\<close> is bound to.\<close>

definition TaskManager_init ::
  "string \<Rightarrow> (nat \<Rightarrow> 128 word) \<Rightarrow> world \<Rightarrow> error + (string \<times> Task_object list)" where
  "TaskManager_init fname rnd w =
     (case load_tasks fname rnd w of
        Inl e \<Rightarrow> Inl e
      | Inr objs \<Rightarrow> Inr (fname, objs))"

subsubsection \<open>save_tasks, add_task, update_task, delete_task\<close>

text \<open>The value that \<open>save_tasks\<close> hands to \<open>json.dump\<close>, and the file that
  \<open>json.dump\<close> leaves.\<close>

definition document :: "Task list \<Rightarrow> json" where
  "document ts = JList (map (\<lambda>t. to_dict (obj_of t)) ts)"

definition json_dump :: "json \<Rightarrow> file_content" where
  "json_dump v = Document (reload v)"

definition save_tasks :: "TaskManager \<Rightarrow> world \<Rightarrow> world" where
  "save_tasks self w =
     w\<lparr> files := (files w)(filename self := json_dump (document (heap w (tasks self)))),
        writes := writes w @ [(filename self, document (heap w (tasks self)))] \<rparr>"

definition add_task :: "TaskManager \<Rightarrow> Task \<Rightarrow> world \<Rightarrow> world" where
  "add_task self task w =
     save_tasks self (w\<lparr> heap := (heap w)(tasks self := heap w (tasks self) @ [task]) \<rparr>)"

text \<open>The loop of \<open>update_task\<close> over \<open>enumerate(self.tasks)\<close>: \<open>i\<close> is the
  index, the list argument is what remains to be visited.\<close>

fun update_loop :: "TaskManager \<Rightarrow> string \<Rightarrow> Task \<Rightarrow> nat \<Rightarrow> Task list \<Rightarrow> world \<Rightarrow> bool \<times> world" where
  "update_loop self task_id updated_task i [] w = (False, w)"
| "update_loop self task_id updated_task i (task # rest) w =
     (if id_attr task = task_id
      then (True,
            save_tasks self
              (w\<lparr> heap := (heap w)(tasks self := (heap w (tasks self))[i := updated_task]) \<rparr>))
      else update_loop self task_id updated_task (Suc i) rest w)"

definition update_task :: "TaskManager \<Rightarrow> string \<Rightarrow> Task \<Rightarrow> world \<Rightarrow> bool \<times> world" where
  "update_task self task_id updated_task w =
     update_loop self task_id updated_task 0 (heap w (tasks self)) w"

definition delete_task :: "TaskManager \<Rightarrow> string \<Rightarrow> world \<Rightarrow> TaskManager \<times> world" where
  "delete_task self task_id w =
     (case new_list [task \<leftarrow> heap w (tasks self). id_attr task \<noteq> task_id] w of
        (a, w') \<Rightarrow> (self\<lparr> tasks := a \<rparr>, save_tasks (self\<lparr> tasks := a \<rparr>) w'))"

subsubsection \<open>filter_tasks\<close>

text \<open>\<open>str.lower\<close> on the code points below 256: the letters A to Z and the
  letters from U+00C0 to U+00DE other than the sign U+00D7 move up by 32.\<close>

definition lower_char :: "char \<Rightarrow> char" where
  "lower_char c =
     (if (0x41 \<le> (of_char c :: nat) \<and> (of_char c :: nat) \<le> 0x5A)
         \<or> (0xC0 \<le> (of_char c :: nat) \<and> (of_char c :: nat) \<le> 0xDE \<and> (of_char c :: nat) \<noteq> 0xD7)
      then char_of ((of_char c :: nat) + 0x20)
      else c)"

definition lower :: "string \<Rightarrow> string" where
  "lower s = map lower_char s"

text \<open>The three narrowing steps. Each takes the variable \<open>filtered\<close> (an
  address) with the world and gives them back; a comprehension makes a new list.\<close>

definition narrow_name :: "string \<Rightarrow> addr \<times> world \<Rightarrow> addr \<times> world" where
  "narrow_name name_filter fw =
     (case fw of (filtered, w) \<Rightarrow>
        if name_filter \<noteq> []
        then new_list [t \<leftarrow> heap w filtered. sublist (lower name_filter) (lower (name t))] w
        else (filtered, w))"

definition narrow_priority :: "string \<Rightarrow> addr \<times> world \<Rightarrow> addr \<times> world" where
  "narrow_priority priority_filter fw =
     (case fw of (filtered, w) \<Rightarrow>
        if priority_filter \<noteq> ''All''
        then new_list [t \<leftarrow> heap w filtered. priority t = priority_filter] w
        else (filtered, w))"

definition narrow_due_date :: "string \<Rightarrow> addr \<times> world \<Rightarrow> addr \<times> world" where
  "narrow_due_date due_date_filter fw =
     (case fw of (filtered, w) \<Rightarrow>
        if due_date_filter \<noteq> []
        then new_list [t \<leftarrow> heap w filtered. due_date t = due_date_filter] w
        else (filtered, w))"

definition filter_tasks :: "TaskManager \<Rightarrow> string \<Rightarrow> string \<Rightarrow> string \<Rightarrow> world \<Rightarrow> addr \<times> world" where
  "filter_tasks self name_filter priority_filter due_date_filter w =
     narrow_due_date due_date_filter
       (narrow_priority priority_filter
          (narrow_name name_filter (tasks self, w)))"

text \<open>The list a returned reference points to.\<close>

definition deref :: "addr \<times> world \<Rightarrow> Task list" where
  "deref fw = (case fw of (a, w) \<Rightarrow> heap w a)"

subsubsection \<open>sort_tasks\<close>

text \<open>\<open>getattr(task, key)\<close> on the five data attributes. Another name raises
  \<open>AttributeError\<close>; the names of methods and of the attributes every object
  has are not modelled.\<close>

definition attribute :: "string \<Rightarrow> (Task \<Rightarrow> string) option" where
  "attribute key =
     (if key = ''id'' then Some id_attr
      else if key = ''name'' then Some name
      else if key = ''description'' then Some description
      else if key = ''priority'' then Some priority
      else if key = ''due_date'' then Some due_date
      else None)"

text \<open>\<open>sorted\<close> is stable and calls the key function once for each element, so
  an unknown key raises only when there is an element.\<close>

definition sort_tasks :: "TaskManager \<Rightarrow> string \<Rightarrow> world \<Rightarrow> error + (addr \<times> world)" where
  "sort_tasks self key w =
     (case attribute key of
        Some f \<Rightarrow> Inr (new_list (sort_key f (heap w (tasks self))) w)
      | None \<Rightarrow>
          if heap w (tasks self) = [] then Inr (new_list [] w)
          else Inl (AttributeError key))"

subsection \<open>Notions of the specification\<close>

text \<open>The three criteria of \<open>filter\<close>, as the specification words them.\<close>

definition meets_criteria :: "string \<Rightarrow> string \<Rightarrow> string \<Rightarrow> Task \<Rightarrow> bool" where
  "meets_criteria n p d t =
     ((n = [] \<or> sublist (lower n) (lower (name t)))
      \<and> (p = ''All'' \<or> priority t = p)
      \<and> (d = [] \<or> due_date t = d))"

text \<open>The supported sort fields with the attribute each one names, and the list
  that \<open>sort_tasks\<close> returns, if it returns.\<close>

definition supported_fields :: "(string \<times> (Task \<Rightarrow> string)) list" where
  "supported_fields =
     [(''id'', id_attr), (''name'', name), (''description'', description),
      (''priority'', priority), (''due_date'', due_date)]"

definition sorted_result :: "error + (addr \<times> world) \<Rightarrow> Task list option" where
  "sorted_result r = (case r of Inl e \<Rightarrow> None | Inr (a, w) \<Rightarrow> Some (heap w a))"

text \<open>A record of the backing file that \<open>load_tasks\<close> can read: an object that
  has the five members. \<open>member\<close> is the value of a member (the last one of a
  repeated name), \<open>record_task\<close> the Task object that the constructor makes of
  the record and \<open>raw_of\<close> the five values in the order of the subscripts.\<close>

definition has_members :: "json \<Rightarrow> bool" where
  "has_members v =
     (case v of
        JDict kvs \<Rightarrow>
          list_all (\<lambda>k. map_of (rev kvs) (str_lit k) \<noteq> None)
            [''name'', ''description'', ''priority'', ''due_date'', ''id'']
      | _ \<Rightarrow> False)"

definition member :: "json \<Rightarrow> string \<Rightarrow> json" where
  "member v k =
     (case v of
        JDict kvs \<Rightarrow> (case map_of (rev kvs) (str_lit k) of Some x \<Rightarrow> x | None \<Rightarrow> JNull)
      | _ \<Rightarrow> JNull)"

definition record_task :: "json \<Rightarrow> 128 word \<Rightarrow> Task_object" where
  "record_task v r =
     Task_init (member v ''name'') (member v ''description'') (member v ''priority'')
       (member v ''due_date'') (member v ''id'') r"

definition raw_of :: "json \<Rightarrow> json \<times> json \<times> json \<times> json \<times> json" where
  "raw_of v = (member v ''name'', member v ''description'', member v ''priority'',
     member v ''due_date'', member v ''id'')"

text \<open>A string in which no high surrogate is directly followed by a low
  surrogate, a value that is such a string, and a Task object of the data
  model that comes back from the file as it is: its five attributes are such
  strings and its id is not empty.\<close>

fun no_pair :: "nat list \<Rightarrow> bool" where
  "no_pair (h # l # cs) = (\<not> (high_surrogate h \<and> low_surrogate l) \<and> no_pair (l # cs))"
| "no_pair cs = True"

fun plain_str :: "json \<Rightarrow> bool" where
  "plain_str (JStr s) = no_pair s"
| "plain_str v = False"

definition round_trips :: "Task_object \<Rightarrow> bool" where
  "round_trips t =
     (truthy (attr_id t) \<and> plain_str (attr_id t) \<and> plain_str (attr_name t)
      \<and> plain_str (attr_description t) \<and> plain_str (attr_priority t)
      \<and> plain_str (attr_due_date t))"


text \<open>The falsy values, and the bits of a random word that \<open>uuid4\<close> keeps.\<close>

definition falsy_values :: "json list" where
  "falsy_values =
     [JNull, JBool False, JNum 0, JFloat 0, JFloat 0x8000000000000000, JStr [], JList [], JDict []]"

definition free_bits :: "128 word \<Rightarrow> 128 word" where
  "free_bits r = (r AND NOT (push_bit 48 0xc000)) AND NOT (push_bit 64 0xf000)"

subsection \<open>Example stores\<close>

text \<open>The tasks of the scenario of the specification, and a third task that
  reuses the id of the first.\<close>

definition buy_milk :: Task where
  "buy_milk = \<lparr> id_attr = ''a1'', name = ''Buy milk'', description = [],
                priority = ''High'', due_date = ''2024-01-01'' \<rparr>"

definition pay_rent :: Task where
  "pay_rent = \<lparr> id_attr = ''b2'', name = ''Pay rent'', description = [],
                priority = ''Low'', due_date = ''2024-01-05'' \<rparr>"

definition call_bob :: Task where
  "call_bob = \<lparr> id_attr = ''a1'', name = ''Call Bob'', description = ''soon'',
                priority = ''Medium'', due_date = ''2024-01-03'' \<rparr>"

definition store1 :: TaskManager where
  "store1 = \<lparr> filename = ''tasks.json'', tasks = 0 \<rparr>"

definition world1 :: world where
  "world1 = \<lparr> heap = (\<lambda>a. [])(0 := [buy_milk, pay_rent]), brk = 1,
               files = (\<lambda>p. Absent)(''tasks.json'' := Document (document [buy_milk, pay_rent])),
               writes = [] \<rparr>"

definition world2 :: world where
  "world2 = \<lparr> heap = (\<lambda>a. [])(0 := [pay_rent, call_bob, buy_milk]), brk = 1,
               files = (\<lambda>p. Absent), writes = [] \<rparr>"

text \<open>Files: none, and one file \<open>tasks.json\<close>. A record with members that are
  not strings and a falsy id. A task of the data model with an empty id, a
  Task object whose name is the two surrogates of U+1F600, and one whose name
  is the character U+1F600 followed by a high surrogate.\<close>

definition no_files :: world where
  "no_files = \<lparr> heap = (\<lambda>a. []), brk = 0, files = (\<lambda>p. Absent), writes = [] \<rparr>"

definition with_file :: "file_content \<Rightarrow> world" where
  "with_file c = no_files\<lparr> files := (\<lambda>p. Absent)(''tasks.json'' := c) \<rparr>"

definition milk_record :: json where
  "milk_record =
     JDict [(str_lit ''name'', JStr (str_lit ''Buy milk'')), (str_lit ''id'', JNum 0),
            (str_lit ''description'', JNull), (str_lit ''priority'', JList [JNum 1]),
            (str_lit ''due_date'', JStr (str_lit ''2024-01-01''))]"




section \<open>Properties\<close>

subsection \<open>Strings and documents of the data model\<close>

lemma str_lit_eq_iff [simp]: "str_lit a = str_lit b \<longleftrightarrow> a = b"
  by (simp add: str_lit_def inj_map_eq_map inj_on_def)

lemma str_lit_Nil_iff [simp]: "str_lit s = [] \<longleftrightarrow> s = []"
  by (simp add: str_lit_def)

lemma no_pair_small: "\<forall>c\<in>set s. c < 0xD800 \<Longrightarrow> no_pair s"
  by (induction s rule: no_pair.induct) (simp_all add: high_surrogate_def)

lemma no_pair_str_lit [simp]: "no_pair (str_lit s)"
proof (rule no_pair_small)
  have "of_char c < (0xD800 :: nat)" for c :: char
  proof -
    have "(of_char c :: nat) mod 256 < 256"
      by (rule mod_less_divisor) simp
    then have "(of_char c :: nat) < 256"
      by simp
    then show ?thesis
      by arith
  qed
  then show "\<forall>c\<in>set (str_lit s). c < 0xD800"
    by (auto simp: str_lit_def)
qed

lemma merge_no_pair: "no_pair s \<Longrightarrow> merge_surrogates s = s"
  by (induction s rule: merge_surrogates.induct) auto

lemma reload_plain_str: "plain_str v \<Longrightarrow> reload v = v"
  by (cases v) (simp_all add: merge_no_pair)



lemma round_trips_obj_of [simp]: "round_trips (obj_of t) \<longleftrightarrow> id_attr t \<noteq> []"
  by (simp add: round_trips_def obj_of_def)


lemma json_dump_document [simp]: "json_dump (document ts) = Document (document ts)"
  by (simp add: json_dump_def document_def to_dict_def obj_of_def reload_plain_str merge_no_pair)

subsection \<open>The string of a UUID\<close>

lemma length_hex_pad: "length (hex_pad k n) = k"
  by (induction k arbitrary: n) simp_all

lemma hex_digit_inj: "hex_digit a = hex_digit b \<Longrightarrow> a mod 16 = b mod 16"
proof -
  have d: "distinct ''0123456789abcdef''" by simp
  assume "hex_digit a = hex_digit b"
  then show ?thesis
    unfolding hex_digit_def using d
    by (simp only: nth_eq_iff_index_eq [OF d] length_Cons list.size)
qed

lemma hex_pad_inj: "hex_pad k a = hex_pad k b \<Longrightarrow> a mod 16 ^ k = b mod 16 ^ k"
proof (induction k arbitrary: a b)
  case 0
  then show ?case by simp
next
  case (Suc k)
  from Suc.prems have 1: "hex_pad k (a div 16) = hex_pad k (b div 16)" and 2: "hex_digit a = hex_digit b"
    by (simp_all add: length_hex_pad)
  from Suc.IH [OF 1] have "(a div 16) mod 16 ^ k = (b div 16) mod 16 ^ k" .
  moreover from hex_digit_inj [OF 2] have "a mod 16 = b mod 16" .
  ultimately show ?case
    by (simp add: mod_mult2_eq)
qed

lemma uuid_str_hex: "hex_pad 32 (unat u) =
   take 8 (uuid_str u) @ take 4 (drop 9 (uuid_str u)) @ take 4 (drop 14 (uuid_str u))
     @ take 4 (drop 19 (uuid_str u)) @ drop 24 (uuid_str u)"
proof -
  define h where "h = hex_pad 32 (unat u)"
  have l: "length h = 32" by (simp add: h_def length_hex_pad)
  have u: "uuid_str u = take 8 h @ ''-'' @ take 4 (drop 8 h) @ ''-'' @ take 4 (drop 12 h) @ ''-''
           @ take 4 (drop 16 h) @ ''-'' @ drop 20 h"
    by (simp add: uuid_str_def h_def Let_def)
  have td: "take n (drop m xs) @ drop (n + m) xs = drop m xs" for n m and xs :: string
    by (simp add: drop_drop [symmetric] del: drop_drop)
  have "h = take 8 h @ take 4 (drop 8 h) @ take 4 (drop 12 h) @ take 4 (drop 16 h) @ drop 20 h"
    using td [of 4 16 h] td [of 4 12 h] td [of 4 8 h] append_take_drop_id [of 8 h] by simp
  then show ?thesis
    unfolding h_def [symmetric] u using l by simp
qed

lemma inj_uuid_str: "inj uuid_str"
proof (rule injI)
  fix u v :: "128 word"
  assume "uuid_str u = uuid_str v"
  then have "hex_pad 32 (unat u) = hex_pad 32 (unat v)"
    by (simp add: uuid_str_hex)
  then have "unat u mod 16 ^ 32 = unat v mod 16 ^ 32"
    by (rule hex_pad_inj)
  moreover have "unat u < 16 ^ 32" "unat v < 16 ^ 32"
    using unsigned_less [of u] unsigned_less [of v] by simp_all
  ultimately show "u = v"
    by (simp add: word_unat_eq_iff)
qed

lemma length_uuid_str: "length (uuid_str u) = 36"
  by (simp add: uuid_str_def Let_def length_hex_pad)

lemma uuid_str_not_empty: "uuid_str u \<noteq> []"
  using length_uuid_str [of u] by auto

lemma len_word_128: "LENGTH(128) = 128"
  by simp

lemma masks:
  "push_bit 48 (0xc000 :: 128 word) = push_bit 62 (mask 2)"
  "push_bit 48 (0x8000 :: 128 word) = push_bit 63 1"
  "push_bit 64 (0xf000 :: 128 word) = push_bit 76 (mask 4)"
  "push_bit 76 (4 :: 128 word) = push_bit 78 1"
  by (simp_all add: push_bit_eq_mult mask_eq_exp_minus_1)

lemma bit_consts:
  "bit (push_bit 62 (mask 2 :: 128 word)) n \<longleftrightarrow> n = 62 \<or> n = 63"
  "bit (push_bit 63 (1 :: 128 word)) n \<longleftrightarrow> n = 63"
  "bit (push_bit 76 (mask 4 :: 128 word)) n \<longleftrightarrow> 76 \<le> n \<and> n < 80"
  "bit (push_bit 78 (1 :: 128 word)) n \<longleftrightarrow> n = 78"
  by (simp_all only: bit_push_bit_iff bit_mask_iff bit_1_iff possible_bit_word len_word_128) auto

lemma bit_uuid4:
  "bit (uuid4 r) n \<longleftrightarrow>
     n = 78 \<or> n = 63 \<or> (\<not> (76 \<le> n \<and> n < 80) \<and> n \<noteq> 62 \<and> bit r n)"
  unfolding uuid4_def masks
  by (simp only: bit_or_iff bit_and_iff bit_not_iff bit_consts possible_bit_word)
    (use bit_imp_le_length [of r n] in auto)

lemma bit_free_bits:
  "bit (free_bits r) n \<longleftrightarrow> \<not> (76 \<le> n \<and> n < 80) \<and> n \<noteq> 62 \<and> n \<noteq> 63 \<and> bit r n"
  unfolding free_bits_def masks
  by (simp only: bit_or_iff bit_and_iff bit_not_iff bit_consts possible_bit_word)
    (use bit_imp_le_length [of r n] in auto)

lemma free_bits_uuid4: "free_bits (uuid4 r) = free_bits r"
  by (rule bit_eqI) (auto simp only: bit_free_bits bit_uuid4)

lemma uuid4_free_bits: "uuid4 (free_bits r) = uuid4 r"
  by (rule bit_eqI) (auto simp only: bit_free_bits bit_uuid4)

lemma uuid4_eq_iff: "uuid4 r = uuid4 s \<longleftrightarrow> free_bits r = free_bits s"
  by (metis free_bits_uuid4 uuid4_free_bits)

lemma bit_small:
  "bit (4 :: 128 word) n \<longleftrightarrow> n = 2"
  "bit (2 :: 128 word) n \<longleftrightarrow> n = 1"
proof -
  have "(4 :: 128 word) = push_bit 2 1" "(2 :: 128 word) = push_bit 1 1"
    by simp_all
  then show "bit (4 :: 128 word) n \<longleftrightarrow> n = 2" "bit (2 :: 128 word) n \<longleftrightarrow> n = 1"
    by (auto simp only: bit_push_bit_iff bit_1_iff possible_bit_word len_word_128)
qed

lemma version_bits: "take_bit 4 (drop_bit 76 (uuid4 r)) = 4"
  by (rule bit_eqI)
    (auto simp only: bit_take_bit_iff bit_drop_bit_eq bit_uuid4 bit_small o_def)

lemma variant_bits: "take_bit 2 (drop_bit 62 (uuid4 r)) = 2"
  by (rule bit_eqI)
    (auto simp only: bit_take_bit_iff bit_drop_bit_eq bit_uuid4 bit_small o_def)

lemma nth_hex_pad: "i < k \<Longrightarrow> hex_pad k n ! i = hex_digit (n div 16 ^ (k - 1 - i))"
proof (induction k arbitrary: n i)
  case 0
  then show ?case by simp
next
  case (Suc k)
  show ?case
  proof (cases "i < k")
    case True
    then have "hex_pad (Suc k) n ! i = hex_digit (n div 16 div 16 ^ (k - 1 - i))"
      by (simp add: nth_append length_hex_pad Suc.IH)
    also have "n div 16 div 16 ^ (k - 1 - i) = n div 16 ^ (Suc k - 1 - i)"
      using True by (simp add: div_mult2_eq [symmetric] power_Suc [symmetric] Suc_diff_Suc del: power_Suc)
    finally show ?thesis .
  next
    case False
    with Suc.prems have "i = k" by simp
    then show ?thesis by (simp add: nth_append length_hex_pad)
  qed
qed

lemma hex_digit_in: "hex_digit d \<in> set ''0123456789abcdef''"
  unfolding hex_digit_def by (rule nth_mem) simp

lemma set_hex_pad_gen: "(\<And>d. hex_digit d \<in> D) \<Longrightarrow> set (hex_pad k n) \<subseteq> D"
  by (induction k arbitrary: n) auto

lemma set_hex_pad: "set (hex_pad k n) \<subseteq> set ''0123456789abcdef''"
  by (rule set_hex_pad_gen) (rule hex_digit_in)

lemma uuid_str_nth:
  defines "h u \<equiv> hex_pad 32 (unat u)"
  shows "uuid_str u ! 8 = CHR ''-''" "uuid_str u ! 13 = CHR ''-''"
    "uuid_str u ! 18 = CHR ''-''" "uuid_str u ! 23 = CHR ''-''"
    "uuid_str u ! 14 = h u ! 12" "uuid_str u ! 19 = h u ! 16"
  by (simp_all add: uuid_str_def h_def Let_def nth_append length_hex_pad nth_Cons')

lemma set_uuid_str_gen:
  "set (hex_pad 32 (unat u)) \<subseteq> D \<Longrightarrow> CHR ''-'' \<in> D \<Longrightarrow> set (uuid_str u) \<subseteq> D"
  by (auto simp: uuid_str_def Let_def dest!: in_set_takeD in_set_dropD)

lemma set_uuid_str: "set (uuid_str u) \<subseteq> set ''0123456789abcdef-''"
proof (rule set_uuid_str_gen)
  show "set (hex_pad 32 (unat u)) \<subseteq> set ''0123456789abcdef-''"
    by (rule set_hex_pad_gen) (use hex_digit_in in auto)
qed simp

lemma unat_bits:
  "unat (take_bit m (drop_bit k w)) = unat w div 2 ^ k mod 2 ^ m" for w :: "128 word"
proof -
  have "unat (take_bit m (drop_bit k w)) = take_bit m (drop_bit k (unat w))"
  proof -
    have "take_bit 128 (unat w) = unat (take_bit 128 w)"
      by (simp only: unsigned_take_bit_eq)
    moreover have "take_bit 128 w = w"
      using take_bit_length_eq [of w] by (simp only: len_word_128)
    ultimately have "take_bit 128 (unat w) = unat w"
      by simp
    then show ?thesis
      by (simp only: unsigned_take_bit_eq unsigned_drop_bit_eq len_word_128)
  qed
  then show ?thesis
    by (simp add: take_bit_eq_mod drop_bit_eq_div)
qed

lemma version_digit: "uuid_str (uuid4 r) ! 14 = CHR ''4''"
proof -
  have "unat (take_bit 4 (drop_bit 76 (uuid4 r))) = unat (uuid4 r) div 16 ^ 19 mod 16"
    using unat_bits [of 4 76 "uuid4 r"] by simp
  then have "unat (uuid4 r) div 16 ^ 19 mod 16 = 4"
    by (simp add: version_bits)
  then have "hex_digit (unat (uuid4 r) div 16 ^ 19) = CHR ''4''"
    by (simp add: hex_digit_def)
  then show ?thesis
    by (simp add: uuid_str_nth nth_hex_pad)
qed

lemma variant_digit: "uuid_str (uuid4 r) ! 19 \<in> set ''89ab''"
proof -
  define d where "d = unat (uuid4 r) div 16 ^ 15 mod 16"
  have "unat (take_bit 2 (drop_bit 62 (uuid4 r))) = unat (uuid4 r) div 2 ^ 62 mod 4"
    using unat_bits [of 2 62 "uuid4 r"] by simp
  then have "unat (uuid4 r) div 2 ^ 62 mod 4 = 2"
    by (simp add: variant_bits)
  moreover have "unat (uuid4 r) div 2 ^ 62 = unat (uuid4 r) div 16 ^ 15 div 4"
    by (simp add: div_mult2_eq [symmetric])
  moreover have "x mod 16 div 4 = x div 4 mod 4" for x :: nat
    using mod_mult2_eq [of x 4 4] by simp
  then have "d div 4 = unat (uuid4 r) div 16 ^ 15 div 4 mod 4"
    unfolding d_def .
  ultimately have "d div 4 = 2" by simp
  moreover have "d < 16" by (simp add: d_def)
  ultimately have "d = 8 \<or> d = 9 \<or> d = 10 \<or> d = 11" by arith
  then have "hex_digit (unat (uuid4 r) div 16 ^ 15) \<in> set ''89ab''"
    unfolding hex_digit_def d_def [symmetric] by auto
  then show ?thesis
    by (simp add: uuid_str_nth nth_hex_pad)
qed

lemma uuid_str_uuid4_eq_iff:
  "uuid_str (uuid4 r) = uuid_str (uuid4 s) \<longleftrightarrow> free_bits r = free_bits s"
  using inj_uuid_str by (simp add: inj_eq uuid4_eq_iff)

subsection \<open>Construction of a Task\<close>

lemma falsy_iff: "\<not> truthy v \<longleftrightarrow> v \<in> set falsy_values"
  by (cases v) (auto simp: falsy_values_def)

text \<open>
  C10. For every falsy id argument (\<open>None\<close>, which is also the default,
  \<open>False\<close>, \<open>0\<close>, \<open>0.0\<close> and \<open>-0.0\<close>, the empty string, the empty list and the
  empty dict, and no other value of these types) the id of the new Task is
  the string of the generated UUID and
  not the argument; every truthy argument, so every non-empty string, becomes
  the id as it is. The other four arguments are stored as they are. The
  generated string has 36 characters, hyphens at the positions 8, 13, 18 and
  23 and lower-case hexadecimal digits elsewhere, the version digit 4 at
  position 14 and a variant digit 8, 9, a or b at position 19. Two random
  words give the same string exactly when they agree in the 122 bits that
  \<open>uuid4\<close> keeps.
\<close>

theorem Task_init_id:
  "(\<not> truthy v \<longrightarrow>
      attr_id (Task_init nm descr prio due v r) = JStr (str_lit (uuid_str (uuid4 r)))
      \<and> attr_id (Task_init nm descr prio due v r) \<noteq> v)
   \<and> (truthy v \<longrightarrow> attr_id (Task_init nm descr prio due v r) = v)
   \<and> (\<not> truthy v \<longleftrightarrow> v \<in> set falsy_values)
   \<and> attr_name (Task_init nm descr prio due v r) = nm
   \<and> attr_description (Task_init nm descr prio due v r) = descr
   \<and> attr_priority (Task_init nm descr prio due v r) = prio
   \<and> attr_due_date (Task_init nm descr prio due v r) = due
   \<and> length (uuid_str (uuid4 r)) = 36
   \<and> uuid_str (uuid4 r) ! 8 = CHR ''-'' \<and> uuid_str (uuid4 r) ! 13 = CHR ''-''
   \<and> uuid_str (uuid4 r) ! 18 = CHR ''-'' \<and> uuid_str (uuid4 r) ! 23 = CHR ''-''
   \<and> set (uuid_str (uuid4 r)) \<subseteq> set ''0123456789abcdef-''
   \<and> uuid_str (uuid4 r) ! 14 = CHR ''4''
   \<and> uuid_str (uuid4 r) ! 19 \<in> set ''89ab''
   \<and> (uuid_str (uuid4 r) = uuid_str (uuid4 r') \<longleftrightarrow> free_bits r = free_bits r')"
proof -
  have generated: "attr_id (Task_init nm descr prio due v r) = JStr (str_lit (uuid_str (uuid4 r)))
      \<and> attr_id (Task_init nm descr prio due v r) \<noteq> v" if "\<not> truthy v"
  proof -
    have "truthy (JStr (str_lit (uuid_str (uuid4 r))))"
      by (simp add: uuid_str_not_empty)
    with that have "JStr (str_lit (uuid_str (uuid4 r))) \<noteq> v"
      by auto
    with that show ?thesis
      by (simp add: Task_init_def)
  qed
  have kept: "attr_id (Task_init nm descr prio due v r) = v" if "truthy v"
    using that by (simp add: Task_init_def)
  have others: "attr_name (Task_init nm descr prio due v r) = nm"
    "attr_description (Task_init nm descr prio due v r) = descr"
    "attr_priority (Task_init nm descr prio due v r) = prio"
    "attr_due_date (Task_init nm descr prio due v r) = due"
    by (simp_all add: Task_init_def)
  show ?thesis
    using generated kept others falsy_iff [of v] length_uuid_str [of "uuid4 r"]
      uuid_str_nth(1-4) [of "uuid4 r"] set_uuid_str [of "uuid4 r"]
      version_digit [of r] variant_digit [of r] uuid_str_uuid4_eq_iff [of r r']
    by blast
qed

theorem Task_init_id_witness:
  "attr_id (Task_init JNull JNull JNull JNull (JStr []) 0) = JStr (str_lit (uuid_str (uuid4 0)))
   \<and> attr_id (Task_init JNull JNull JNull JNull (JNum 0) 0) = JStr (str_lit (uuid_str (uuid4 0)))
   \<and> attr_id (Task_init JNull JNull JNull JNull JNull 0) = JStr (str_lit (uuid_str (uuid4 0)))
   \<and> attr_id (Task_init JNull JNull JNull JNull (JBool False) 0) = JStr (str_lit (uuid_str (uuid4 0)))
   \<and> attr_id (Task_init JNull JNull JNull JNull (JFloat 0) 0) = JStr (str_lit (uuid_str (uuid4 0)))
   \<and> attr_id (Task_init JNull JNull JNull JNull (JList []) 0) = JStr (str_lit (uuid_str (uuid4 0)))
   \<and> attr_id (Task_init JNull JNull JNull JNull (JStr (str_lit ''a1'')) 0) = JStr (str_lit ''a1'')
   \<and> attr_id (Task_init JNull JNull JNull JNull (JNum 5) 0) = JNum 5"
  using Task_init_id [of "JStr []" JNull JNull JNull JNull 0 0]
    Task_init_id [of "JNum 0" JNull JNull JNull JNull 0 0]
    Task_init_id [of JNull JNull JNull JNull JNull 0 0]
    Task_init_id [of "JBool False" JNull JNull JNull JNull 0 0]
    Task_init_id [of "JFloat 0" JNull JNull JNull JNull 0 0]
    Task_init_id [of "JList []" JNull JNull JNull JNull 0 0]
    Task_init_id [of "JStr (str_lit ''a1'')" JNull JNull JNull JNull 0 0]
    Task_init_id [of "JNum 5" JNull JNull JNull JNull 0 0]
  by simp

subsection \<open>add_task\<close>

lemma task_seq_add: "task_seq self (add_task self t w) = task_seq self w @ [t]"
  by (simp add: task_seq_def add_task_def save_tasks_def)

text \<open>
  C8. \<open>add_task\<close> appends the task: the sequence grows by one, the task is its
  last element and the tasks before keep their positions. Then the sequence is
  written to the file of the store. The statement holds for every task and every
  store, so also for a task whose id is already in the store.
\<close>

theorem add_task_appends:
  "task_seq self (add_task self t w) = task_seq self w @ [t]
   \<and> length (task_seq self (add_task self t w)) = Suc (length (task_seq self w))
   \<and> last (task_seq self (add_task self t w)) = t
   \<and> (\<forall>k < length (task_seq self w).
         task_seq self (add_task self t w) ! k = task_seq self w ! k)
   \<and> files (add_task self t w) (filename self) = Document (document (task_seq self w @ [t]))
   \<and> writes (add_task self t w) = writes w @ [(filename self, document (task_seq self w @ [t]))]"
  by (simp add: task_seq_add nth_append) (simp add: task_seq_def add_task_def save_tasks_def)

theorem add_task_appends_witness:
  "task_seq store1 (add_task store1 call_bob world1) = [buy_milk, pay_rent, call_bob]
   \<and> id_attr call_bob = id_attr buy_milk
   \<and> task_seq store1 (add_task store1 call_bob world1) ! 0 = buy_milk
   \<and> task_seq store1 (add_task store1 call_bob world1) ! 1 = pay_rent
   \<and> files (add_task store1 call_bob world1) ''tasks.json''
       = Document (document [buy_milk, pay_rent, call_bob])"
  using add_task_appends [of store1 call_bob world1]
  by (simp add: task_seq_def store1_def world1_def buy_milk_def call_bob_def)

subsection \<open>update_task\<close>

text \<open>The loop stops at the first task with the id; its index is the length of
  the longest prefix without the id.\<close>

lemma update_loop_eq:
  "update_loop self tid u i rest w =
     (if \<exists>x\<in>set rest. id_attr x = tid
      then (True, save_tasks self
              (w\<lparr> heap := (heap w)(tasks self :=
                    (heap w (tasks self))[i + length (takeWhile (\<lambda>x. id_attr x \<noteq> tid) rest) := u]) \<rparr>))
      else (False, w))"
  by (induction rest arbitrary: i) auto

lemma first_match:
  assumes "\<exists>x\<in>set xs. P x"
  shows "length (takeWhile (\<lambda>x. \<not> P x) xs) < length xs"
    and "P (xs ! length (takeWhile (\<lambda>x. \<not> P x) xs))"
proof -
  show len: "length (takeWhile (\<lambda>x. \<not> P x) xs) < length xs"
    using assms by (induction xs) auto
  show "P (xs ! length (takeWhile (\<lambda>x. \<not> P x) xs))"
    using nth_length_takeWhile [OF len] by simp
qed

lemma before_first_match:
  "j < length (takeWhile (\<lambda>x. \<not> P x) xs) \<Longrightarrow> \<not> P (xs ! j)"
  using nth_mem [of j "takeWhile (\<lambda>x. \<not> P x) xs"] set_takeWhileD [of "xs ! j" "\<lambda>x. \<not> P x" xs]
  by (simp add: takeWhile_nth)

text \<open>
  C1. If a stored task has the id \<open>i\<close>, then with \<open>k\<close> the index of the first such
  task, \<open>update_task\<close> returns \<open>True\<close>, the sequence is the old one with \<open>t\<close> at
  position \<open>k\<close> (same length, every other position unchanged) and that sequence
  is written to the file. If no stored task has the id, it returns \<open>False\<close> and
  the whole world, with the sequence and the file, is as before. Nothing is
  asked of the id of \<open>t\<close>: the task is stored as it is.
\<close>

theorem update_task_replaces_first:
  "((\<exists>x\<in>set (task_seq self w). id_attr x = i) \<longrightarrow>
      (let k = length (takeWhile (\<lambda>x. id_attr x \<noteq> i) (task_seq self w));
           r = update_task self i t w
       in k < length (task_seq self w)
          \<and> id_attr (task_seq self w ! k) = i
          \<and> (\<forall>j<k. id_attr (task_seq self w ! j) \<noteq> i)
          \<and> fst r
          \<and> task_seq self (snd r) = (task_seq self w)[k := t]
          \<and> length (task_seq self (snd r)) = length (task_seq self w)
          \<and> task_seq self (snd r) ! k = t
          \<and> (\<forall>j<length (task_seq self w). j \<noteq> k \<longrightarrow> task_seq self (snd r) ! j = task_seq self w ! j)
          \<and> files (snd r) (filename self) = Document (document ((task_seq self w)[k := t]))
          \<and> writes (snd r) = writes w @ [(filename self, document ((task_seq self w)[k := t]))]))
   \<and> ((\<forall>x\<in>set (task_seq self w). id_attr x \<noteq> i) \<longrightarrow> update_task self i t w = (False, w))"
proof (intro conjI impI)
  assume "\<forall>x\<in>set (task_seq self w). id_attr x \<noteq> i"
  then show "update_task self i t w = (False, w)"
    by (simp add: update_task_def update_loop_eq task_seq_def)
next
  assume ex: "\<exists>x\<in>set (task_seq self w). id_attr x = i"
  define k where "k = length (takeWhile (\<lambda>x. id_attr x \<noteq> i) (task_seq self w))"
  have k: "k < length (task_seq self w)" and at: "id_attr (task_seq self w ! k) = i"
    using first_match [of "task_seq self w" "\<lambda>x. id_attr x = i"] ex by (simp_all add: k_def)
  have before: "\<forall>j<k. id_attr (task_seq self w ! j) \<noteq> i"
    using before_first_match [of _ "\<lambda>x. id_attr x = i" "task_seq self w"] by (simp add: k_def)
  have r: "update_task self i t w =
      (True, save_tasks self (w\<lparr> heap := (heap w)(tasks self := (task_seq self w)[k := t]) \<rparr>))"
    using ex by (simp add: update_task_def update_loop_eq task_seq_def k_def)
  show "let k = length (takeWhile (\<lambda>x. id_attr x \<noteq> i) (task_seq self w));
           r = update_task self i t w
       in k < length (task_seq self w)
          \<and> id_attr (task_seq self w ! k) = i
          \<and> (\<forall>j<k. id_attr (task_seq self w ! j) \<noteq> i)
          \<and> fst r
          \<and> task_seq self (snd r) = (task_seq self w)[k := t]
          \<and> length (task_seq self (snd r)) = length (task_seq self w)
          \<and> task_seq self (snd r) ! k = t
          \<and> (\<forall>j<length (task_seq self w). j \<noteq> k \<longrightarrow> task_seq self (snd r) ! j = task_seq self w ! j)
          \<and> files (snd r) (filename self) = Document (document ((task_seq self w)[k := t]))
          \<and> writes (snd r) = writes w @ [(filename self, document ((task_seq self w)[k := t]))]"
    unfolding Let_def k_def [symmetric] r
    using k at before by (simp add: task_seq_def save_tasks_def)
qed

theorem update_task_replaces_first_witness:
  "fst (update_task store1 ''b2'' call_bob world1)
   \<and> task_seq store1 (snd (update_task store1 ''b2'' call_bob world1)) = [buy_milk, call_bob]
   \<and> id_attr call_bob \<noteq> ''b2''
   \<and> files (snd (update_task store1 ''b2'' call_bob world1)) ''tasks.json''
       = Document (document [buy_milk, call_bob])
   \<and> update_task store1 ''zz'' call_bob world1 = (False, world1)"
  using update_task_replaces_first [of store1 world1 "''b2''" call_bob]
    update_task_replaces_first [of store1 world1 "''zz''" call_bob]
  by (simp add: task_seq_def store1_def world1_def buy_milk_def pay_rent_def call_bob_def Let_def)

subsection \<open>delete_task\<close>

text \<open>
  C7. \<open>delete_task\<close> leaves exactly the tasks whose id is not \<open>i\<close>, in their
  order; no remaining task has the id. The new sequence is written to the file
  of the store. If no stored task has the id, the sequence is the same as
  before and it is written all the same.
\<close>

theorem delete_task_removes:
  "(let r = delete_task self i w
    in task_seq (fst r) (snd r) = [x \<leftarrow> task_seq self w. id_attr x \<noteq> i]
       \<and> (\<forall>x\<in>set (task_seq (fst r) (snd r)). id_attr x \<noteq> i)
       \<and> subseq (task_seq (fst r) (snd r)) (task_seq self w)
       \<and> filename (fst r) = filename self
       \<and> files (snd r) (filename self) = Document (document [x \<leftarrow> task_seq self w. id_attr x \<noteq> i])
       \<and> writes (snd r) = writes w @ [(filename self, document [x \<leftarrow> task_seq self w. id_attr x \<noteq> i])]
       \<and> ((\<forall>x\<in>set (task_seq self w). id_attr x \<noteq> i) \<longrightarrow>
            task_seq (fst r) (snd r) = task_seq self w
            \<and> writes (snd r) = writes w @ [(filename self, document (task_seq self w))]))"
proof -
  have same: "(\<forall>x\<in>set xs. id_attr x \<noteq> i) \<Longrightarrow> [x \<leftarrow> xs. id_attr x \<noteq> i] = xs" for xs :: "Task list"
    by (induction xs) auto
  show ?thesis
    by (auto simp: Let_def delete_task_def new_list_def save_tasks_def task_seq_def same)
qed

theorem delete_task_removes_witness:
  "task_seq (fst (delete_task store1 ''a1'' world1)) (snd (delete_task store1 ''a1'' world1)) = [pay_rent]
   \<and> files (snd (delete_task store1 ''a1'' world1)) ''tasks.json'' = Document (document [pay_rent])
   \<and> task_seq (fst (delete_task store1 ''zz'' world1)) (snd (delete_task store1 ''zz'' world1))
       = [buy_milk, pay_rent]
   \<and> writes (snd (delete_task store1 ''zz'' world1)) = [(''tasks.json'', document [buy_milk, pay_rent])]"
  using delete_task_removes [of store1 "''a1''" world1] delete_task_removes [of store1 "''zz''" world1]
  by (simp add: task_seq_def store1_def world1_def buy_milk_def pay_rent_def Let_def)

subsection \<open>filter_tasks\<close>

lemma deref_new_list: "deref (new_list xs w) = xs"
  by (simp add: deref_def new_list_def)

lemma deref_narrow_name:
  "deref (narrow_name n fw) = [t \<leftarrow> deref fw. n = [] \<or> sublist (lower n) (lower (name t))]"
  by (cases fw) (simp add: narrow_name_def deref_new_list, simp add: deref_def)

lemma deref_narrow_priority:
  "deref (narrow_priority p fw) = [t \<leftarrow> deref fw. p = ''All'' \<or> priority t = p]"
  by (cases fw) (simp add: narrow_priority_def deref_new_list, simp add: deref_def)

lemma deref_narrow_due_date:
  "deref (narrow_due_date d fw) = [t \<leftarrow> deref fw. d = [] \<or> due_date t = d]"
  by (cases fw) (simp add: narrow_due_date_def deref_new_list, simp add: deref_def)

lemmas deref_narrow = deref_narrow_name deref_narrow_priority deref_narrow_due_date

text \<open>
  C3. The list that \<open>filter_tasks\<close> returns holds exactly the stored tasks that
  meet all three criteria, in their stored order: a task is in the result if
  and only if it is stored and meets the criteria. Applying the three narrowing
  steps in any of the five other orders gives the same list.
\<close>

theorem filter_tasks_exact:
  "deref (filter_tasks self n p d w) = [t \<leftarrow> task_seq self w. meets_criteria n p d t]
   \<and> set (deref (filter_tasks self n p d w)) = {t \<in> set (task_seq self w). meets_criteria n p d t}
   \<and> deref (narrow_due_date d (narrow_name n (narrow_priority p (tasks self, w))))
       = deref (filter_tasks self n p d w)
   \<and> deref (narrow_priority p (narrow_due_date d (narrow_name n (tasks self, w))))
       = deref (filter_tasks self n p d w)
   \<and> deref (narrow_priority p (narrow_name n (narrow_due_date d (tasks self, w))))
       = deref (filter_tasks self n p d w)
   \<and> deref (narrow_name n (narrow_priority p (narrow_due_date d (tasks self, w))))
       = deref (filter_tasks self n p d w)
   \<and> deref (narrow_name n (narrow_due_date d (narrow_priority p (tasks self, w))))
       = deref (filter_tasks self n p d w)"
proof -
  have start: "deref (tasks self, w) = task_seq self w"
    by (simp add: deref_def task_seq_def)
  have conj_filter: "[t \<leftarrow> xs. meets_criteria n p d t]
      = [t \<leftarrow> [t \<leftarrow> [t \<leftarrow> xs. n = [] \<or> sublist (lower n) (lower (name t))].
                  p = ''All'' \<or> priority t = p]. d = [] \<or> due_date t = d]" for xs
    by (induction xs) (auto simp: meets_criteria_def)
  have main: "deref (filter_tasks self n p d w) = [t \<leftarrow> task_seq self w. meets_criteria n p d t]"
    by (simp only: filter_tasks_def deref_narrow start conj_filter)
  have perm: "[t \<leftarrow> [t \<leftarrow> xs. P t]. Q t] = [t \<leftarrow> [t \<leftarrow> xs. Q t]. P t]" for P Q and xs :: "Task list"
    by (induction xs) auto
  show ?thesis
    apply (intro conjI)
          apply (rule main)
         apply (simp add: main)
        apply (simp_all add: filter_tasks_def deref_narrow start conj_ac)
    done
qed


theorem filter_tasks_exact_witness:
  "deref (filter_tasks store1 ''MILK'' ''High'' [] world1) = [buy_milk]
   \<and> deref (filter_tasks store1 [] ''High'' [] world1) = [buy_milk]
   \<and> deref (filter_tasks store1 ''a'' ''All'' ''2024-01-05'' world1) = [pay_rent]
   \<and> deref (filter_tasks store1 ''milk'' ''Low'' [] world1) = []"
  using filter_tasks_exact [of store1 "''MILK''" "''High''" "[]" world1]
    filter_tasks_exact [of store1 "[]" "''High''" "[]" world1]
    filter_tasks_exact [of store1 "''a''" "''All''" "''2024-01-05''" world1]
    filter_tasks_exact [of store1 "''milk''" "''Low''" "[]" world1]
  by (simp add: meets_criteria_def task_seq_def store1_def world1_def buy_milk_def pay_rent_def
      lower_def lower_char_def char_of_eq_iff sublist_code(3))

subsection \<open>sort_tasks\<close>

lemma attribute_supported: "(key, f) \<in> set supported_fields \<Longrightarrow> attribute key = Some f"
  by (auto simp: supported_fields_def attribute_def)

lemma sorted_result_sort:
  "attribute key = Some f \<Longrightarrow>
     sorted_result (sort_tasks self key w) = Some (sort_key f (task_seq self w))"
  by (simp add: sorted_result_def sort_tasks_def new_list_def task_seq_def)

text \<open>
  C4. For each of the five supported fields \<open>sort_tasks\<close> returns a list with
  the same tasks as the store (as a multiset, so the same length), whose values
  of the field are in non-decreasing order; for every value of the field the
  tasks with that value come in the order they have in the store.
\<close>

theorem sort_tasks_stable_sort:
  "(key, f) \<in> set supported_fields \<Longrightarrow>
     (\<exists>ys. sorted_result (sort_tasks self key w) = Some ys
        \<and> mset ys = mset (task_seq self w)
        \<and> length ys = length (task_seq self w)
        \<and> sorted (map f ys)
        \<and> (\<forall>k. [t \<leftarrow> ys. f t = k] = [t \<leftarrow> task_seq self w. f t = k]))"
proof -
  assume "(key, f) \<in> set supported_fields"
  then have "sorted_result (sort_tasks self key w) = Some (sort_key f (task_seq self w))"
    by (simp add: attribute_supported sorted_result_sort)
  then show ?thesis
    by (simp add: sort_key_stable)
qed

lemma ex_sort_due: "sort_key due_date [pay_rent, call_bob, buy_milk] = [buy_milk, call_bob, pay_rent]"
  by (simp add: pay_rent_def call_bob_def buy_milk_def)

lemma ex_sort_id: "sort_key id_attr [pay_rent, call_bob, buy_milk] = [call_bob, buy_milk, pay_rent]"
  by (simp add: pay_rent_def call_bob_def buy_milk_def)

lemma ex_sort_priority: "sort_key priority [pay_rent, call_bob, buy_milk] = [buy_milk, pay_rent, call_bob]"
  by (simp add: pay_rent_def call_bob_def buy_milk_def)

theorem sort_tasks_stable_sort_witness:
  "sorted_result (sort_tasks store1 ''due_date'' world2) = Some [buy_milk, call_bob, pay_rent]
   \<and> sorted (map due_date [buy_milk, call_bob, pay_rent])
   \<and> sorted_result (sort_tasks store1 ''id'' world2) = Some [call_bob, buy_milk, pay_rent]
   \<and> [t \<leftarrow> [call_bob, buy_milk, pay_rent]. id_attr t = ''a1'']
       = [t \<leftarrow> [pay_rent, call_bob, buy_milk]. id_attr t = ''a1'']"
proof -
  have m1: "(''due_date'', due_date) \<in> set supported_fields"
    and m2: "(''id'', id_attr) \<in> set supported_fields"
    by (simp_all add: supported_fields_def)
  have s: "task_seq store1 world2 = [pay_rent, call_bob, buy_milk]"
    by (simp add: task_seq_def store1_def world2_def)
  have e1: "sorted_result (sort_tasks store1 ''due_date'' world2) = Some [buy_milk, call_bob, pay_rent]"
    by (simp only: sorted_result_sort [OF attribute_supported [OF m1]] s ex_sort_due)
  have e2: "sorted_result (sort_tasks store1 ''id'' world2) = Some [call_bob, buy_milk, pay_rent]"
    by (simp only: sorted_result_sort [OF attribute_supported [OF m2]] s ex_sort_id)
  obtain ys where ys: "sorted_result (sort_tasks store1 ''due_date'' world2) = Some ys"
      "sorted (map due_date ys)"
    using sort_tasks_stable_sort [OF m1, of store1 world2] by blast
  obtain zs where zs: "sorted_result (sort_tasks store1 ''id'' world2) = Some zs"
      "\<forall>k. [t \<leftarrow> zs. id_attr t = k] = [t \<leftarrow> task_seq store1 world2. id_attr t = k]"
    using sort_tasks_stable_sort [OF m2, of store1 world2] by blast
  from ys e1 have "sorted (map due_date [buy_milk, call_bob, pay_rent])"
    by simp
  moreover from zs e2 s have "[t \<leftarrow> [call_bob, buy_milk, pay_rent]. id_attr t = ''a1'']
       = [t \<leftarrow> [pay_rent, call_bob, buy_milk]. id_attr t = ''a1'']"
    by (metis option.inject)
  ultimately show ?thesis
    using e1 e2 by blast
qed

lemma priority_order: "''High'' < ''Low'' \<and> ''Low'' < ''Medium''"
  by simp

text \<open>
  C9. Sorting by \<open>priority\<close> compares the strings: \<open>High\<close> is less than \<open>Low\<close> and
  \<open>Low\<close> is less than \<open>Medium\<close>. In the returned list every task with priority
  \<open>High\<close> stands before every task with priority \<open>Low\<close>, and every task with
  priority \<open>Low\<close> before every task with priority \<open>Medium\<close>. This holds for every
  store, so for the stores whose priorities are among the three.
\<close>

theorem sort_tasks_priority_alphabetical:
  "\<exists>ys. sorted_result (sort_tasks self ''priority'' w) = Some ys
     \<and> mset ys = mset (task_seq self w)
     \<and> (\<forall>i j. i < length ys \<and> j < length ys
            \<and> priority (ys ! i) = ''High'' \<and> priority (ys ! j) = ''Low'' \<longrightarrow> i < j)
     \<and> (\<forall>i j. i < length ys \<and> j < length ys
            \<and> priority (ys ! i) = ''Low'' \<and> priority (ys ! j) = ''Medium'' \<longrightarrow> i < j)
     \<and> ''High'' < ''Low'' \<and> ''Low'' < ''Medium''"
proof -
  define ys where "ys = sort_key priority (task_seq self w)"
  have res: "sorted_result (sort_tasks self ''priority'' w) = Some ys"
    by (simp add: ys_def sorted_result_sort attribute_def)
  have srt: "sorted (map priority ys)"
    by (simp add: ys_def)
  have before: "i < j" if "i < length ys" "j < length ys" "priority (ys ! i) < priority (ys ! j)" for i j
  proof (rule ccontr)
    assume "\<not> i < j"
    then have "j \<le> i" by simp
    with srt that(1) have "map priority ys ! j \<le> map priority ys ! i"
      by (simp add: sorted_iff_nth_mono)
    with that show False by simp
  qed
  show ?thesis
    apply (rule exI [of _ ys])
    apply (intro conjI allI impI)
    apply (rule res)
    apply (simp add: ys_def)
    apply (rule before; simp)
    apply (rule before; simp)
    apply simp_all
    done
qed

theorem sort_tasks_priority_alphabetical_witness:
  "sorted_result (sort_tasks store1 ''priority'' world2) = Some [buy_milk, pay_rent, call_bob]
   \<and> map priority [buy_milk, pay_rent, call_bob] = [''High'', ''Low'', ''Medium'']
   \<and> mset [buy_milk, pay_rent, call_bob] = mset (task_seq store1 world2)"
proof -
  have m3: "(''priority'', priority) \<in> set supported_fields"
    by (simp add: supported_fields_def)
  have s: "task_seq store1 world2 = [pay_rent, call_bob, buy_milk]"
    by (simp add: task_seq_def store1_def world2_def)
  have e: "sorted_result (sort_tasks store1 ''priority'' world2) = Some [buy_milk, pay_rent, call_bob]"
    by (simp only: sorted_result_sort [OF attribute_supported [OF m3]] s ex_sort_priority)
  obtain ys where ys: "sorted_result (sort_tasks store1 ''priority'' world2) = Some ys"
      "mset ys = mset (task_seq store1 world2)"
    using sort_tasks_priority_alphabetical [of store1 world2] by blast
  from ys e have "mset [buy_milk, pay_rent, call_bob] = mset (task_seq store1 world2)"
    by simp
  then show ?thesis
    using e by (simp add: pay_rent_def call_bob_def buy_milk_def)
qed

subsection \<open>What filter_tasks and sort_tasks leave unchanged\<close>

lemma filter_tasks_frame:
  assumes "tasks self < brk w"
  shows "task_seq self (snd (filter_tasks self n p d w)) = task_seq self w"
    and "files (snd (filter_tasks self n p d w)) = files w"
    and "writes (snd (filter_tasks self n p d w)) = writes w"
    and "n \<noteq> [] \<or> p \<noteq> ''All'' \<or> d \<noteq> [] \<Longrightarrow> fst (filter_tasks self n p d w) \<noteq> tasks self"
    and "n = [] \<and> p = ''All'' \<and> d = [] \<Longrightarrow> filter_tasks self n p d w = (tasks self, w)"
  using assms
  by (auto simp: filter_tasks_def narrow_name_def narrow_priority_def narrow_due_date_def
      new_list_def task_seq_def)

lemma list_set_other: "a \<noteq> tasks self \<Longrightarrow> task_seq self (list_set a xs w) = task_seq self w"
  by (simp add: list_set_def task_seq_def)

lemma sort_tasks_frame:
  assumes "tasks self < brk w" and "sort_tasks self key w = Inr r"
  shows "task_seq self (snd r) = task_seq self w"
    and "files (snd r) = files w"
    and "writes (snd r) = writes w"
    and "fst r \<noteq> tasks self"
  using assms
  by (auto simp: sort_tasks_def new_list_def task_seq_def split: option.splits if_splits)

text \<open>
  C6, as the code has it. For a store whose list is allocated, \<open>filter_tasks\<close> and
  \<open>sort_tasks\<close> leave the sequence of the store, the files and the record of
  writes as they are. \<open>sort_tasks\<close>, and \<open>filter_tasks\<close> with at least one
  criterion in force, return a new list: whatever the caller puts at its
  address, the sequence of the store stays. With no criterion in force
  \<open>filter_tasks\<close> returns the list of the store itself.
\<close>

theorem filter_sort_read_only:
  "tasks self < brk w \<Longrightarrow>
     (let r = filter_tasks self n p d w
      in task_seq self (snd r) = task_seq self w
         \<and> files (snd r) = files w
         \<and> writes (snd r) = writes w
         \<and> (n \<noteq> [] \<or> p \<noteq> ''All'' \<or> d \<noteq> [] \<longrightarrow>
              fst r \<noteq> tasks self
              \<and> (\<forall>xs. task_seq self (list_set (fst r) xs (snd r)) = task_seq self w))
         \<and> (n = [] \<and> p = ''All'' \<and> d = [] \<longrightarrow> r = (tasks self, w)))
     \<and> (case sort_tasks self key w of
          Inl e \<Rightarrow> True
        | Inr r \<Rightarrow>
            task_seq self (snd r) = task_seq self w
            \<and> files (snd r) = files w
            \<and> writes (snd r) = writes w
            \<and> fst r \<noteq> tasks self
            \<and> (\<forall>xs. task_seq self (list_set (fst r) xs (snd r)) = task_seq self w))"
proof -
  assume alloc: "tasks self < brk w"
  note f = filter_tasks_frame [OF alloc, of n p d]
  have filter_part: "let r = filter_tasks self n p d w
      in task_seq self (snd r) = task_seq self w
         \<and> files (snd r) = files w
         \<and> writes (snd r) = writes w
         \<and> (n \<noteq> [] \<or> p \<noteq> ''All'' \<or> d \<noteq> [] \<longrightarrow>
              fst r \<noteq> tasks self
              \<and> (\<forall>xs. task_seq self (list_set (fst r) xs (snd r)) = task_seq self w))
         \<and> (n = [] \<and> p = ''All'' \<and> d = [] \<longrightarrow> r = (tasks self, w))"
    unfolding Let_def
    using f(1) f(2) f(3) f(4) f(5) by (simp add: list_set_other)
  have sort_part: "case sort_tasks self key w of
          Inl e \<Rightarrow> True
        | Inr r \<Rightarrow>
            task_seq self (snd r) = task_seq self w
            \<and> files (snd r) = files w
            \<and> writes (snd r) = writes w
            \<and> fst r \<noteq> tasks self
            \<and> (\<forall>xs. task_seq self (list_set (fst r) xs (snd r)) = task_seq self w)"
  proof (cases "sort_tasks self key w")
    case (Inl e)
    then show ?thesis by simp
  next
    case (Inr r)
    note s = sort_tasks_frame [OF alloc Inr]
    show ?thesis
      using s by (simp add: Inr list_set_other)
  qed
  from filter_part sort_part show ?thesis by blast
qed

theorem filter_sort_read_only_witness:
  "tasks store1 < brk world1
   \<and> fst (filter_tasks store1 ''milk'' ''All'' [] world1) = 1
   \<and> task_seq store1 (list_set 1 [] (snd (filter_tasks store1 ''milk'' ''All'' [] world1)))
       = [buy_milk, pay_rent]
   \<and> filter_tasks store1 [] ''All'' [] world1 = (0, world1)
   \<and> files (snd (filter_tasks store1 ''milk'' ''All'' [] world1)) = files world1"
proof -
  have alloc: "tasks store1 < brk world1"
    by (simp add: store1_def world1_def)
  have a: "fst (filter_tasks store1 ''milk'' ''All'' [] world1) = 1"
    by (simp add: filter_tasks_def narrow_name_def narrow_priority_def narrow_due_date_def
        new_list_def store1_def world1_def)
  have s: "task_seq store1 world1 = [buy_milk, pay_rent]" "tasks store1 = 0"
    by (simp_all add: task_seq_def store1_def world1_def)
  from filter_sort_read_only [OF alloc, of "''milk''" "''All''" "[]" "''name''"]
    filter_sort_read_only [OF alloc, of "[]" "''All''" "[]" "''name''"]
  show ?thesis
    using alloc a s by (simp add: Let_def)
qed

text \<open>
  C6, as stated, fails: with the default arguments the result of \<open>filter_tasks\<close>
  is the address of the list of the store, and an \<open>append\<close> of the caller to the
  result adds a task to the store.
\<close>

theorem filter_tasks_alias_counterexample:
  "fst (filter_tasks store1 [] ''All'' [] world1) = tasks store1
   \<and> task_seq store1 world1 = [buy_milk, pay_rent]
   \<and> task_seq store1
        (list_append (fst (filter_tasks store1 [] ''All'' [] world1)) call_bob
           (snd (filter_tasks store1 [] ''All'' [] world1)))
       = [buy_milk, pay_rent, call_bob]
   \<and> task_seq store1
        (list_append (fst (filter_tasks store1 [] ''All'' [] world1)) call_bob
           (snd (filter_tasks store1 [] ''All'' [] world1)))
       \<noteq> task_seq store1 world1"
  by (simp add: filter_tasks_def narrow_name_def narrow_priority_def narrow_due_date_def
      list_append_def list_set_def task_seq_def store1_def world1_def)

subsection \<open>Loading\<close>

lemma subscript_member:
  "has_members v \<Longrightarrow>
     k \<in> set [''name'', ''description'', ''priority'', ''due_date'', ''id''] \<Longrightarrow>
     subscript v (str_lit k) = Inr (member v k)"
  by (cases v) (auto simp: has_members_def member_def)

lemma read_record_ok: "has_members v \<Longrightarrow> read_record v = Inr (raw_of v)"
  by (simp add: read_record_def and_then_def raw_of_def subscript_member)

lemma map_err_read_records:
  "list_all has_members items \<Longrightarrow> map_err read_record items = Inr (map raw_of items)"
  by (induction items) (simp_all add: read_record_ok)

lemma build_all_raw:
  "build_all k (map raw_of items) rnd
     = map (\<lambda>(j, v). record_task v (rnd j)) (enumerate k items)"
  by (induction items arbitrary: k) (simp_all add: raw_of_def record_task_def)

lemma tasks_of_records:
  "list_all has_members items \<Longrightarrow>
     tasks_of_data (JList items) rnd
       = Inr (map (\<lambda>(j, v). record_task v (rnd j)) (enumerate 0 items))"
  by (simp add: tasks_of_data_def and_then_def map_err_read_records build_all_raw)

lemma read_record_bad:
  "\<not> has_members v \<Longrightarrow>
     \<exists>e. read_record v = Inl e \<and> (e = TypeError \<or> (\<exists>k. e = KeyError k))"
  by (cases v) (auto simp: has_members_def read_record_def and_then_def split: option.splits)

lemma map_err_bad:
  "\<not> list_all has_members items \<Longrightarrow>
     \<exists>e. map_err read_record items = Inl e \<and> (e = TypeError \<or> (\<exists>k. e = KeyError k))"
proof (induction items)
  case Nil
  then show ?case by simp
next
  case (Cons v items)
  show ?case
  proof (cases "has_members v")
    case True
    with Cons show ?thesis
      by (auto simp: read_record_ok)
  next
    case False
    from read_record_bad [OF this] show ?thesis
      by auto
  qed
qed

lemma tasks_of_bad:
  "iterate data = Inr items \<Longrightarrow> \<not> list_all has_members items \<Longrightarrow>
     \<exists>e. tasks_of_data data rnd = Inl e \<and> (e = TypeError \<or> (\<exists>k. e = KeyError k))"
  using map_err_bad [of items] by (auto simp: tasks_of_data_def and_then_def)

lemma tasks_of_other:
  assumes "data \<noteq> JDict []" "data \<noteq> JStr []"
    and "\<forall>items. data = JList items \<longrightarrow> \<not> list_all has_members items"
  shows "\<exists>e. tasks_of_data data rnd = Inl e \<and> (e = TypeError \<or> (\<exists>k. e = KeyError k))"
proof (cases data)
  case (JList items)
  with assms(3) show ?thesis
    by (intro tasks_of_bad [of data items]) simp_all
next
  case (JDict kvs)
  with assms(1) have "kvs \<noteq> []"
    by simp
  then have "\<not> list_all has_members (map JStr (rev (remdups (rev (map fst kvs)))))"
    by (cases kvs) (auto simp: list_all_iff has_members_def)
  with JDict show ?thesis
    by (intro tasks_of_bad [of data "map JStr (rev (remdups (rev (map fst kvs))))"]) simp_all
next
  case (JStr cs)
  with assms(2) have "cs \<noteq> []"
    by simp
  then have "\<not> list_all has_members (map (\<lambda>c. JStr [c]) cs)"
    by (cases cs) (auto simp: has_members_def)
  with JStr show ?thesis
    by (intro tasks_of_bad [of data "map (\<lambda>c. JStr [c]) cs"]) simp_all
qed (simp_all add: tasks_of_data_def and_then_def)

text \<open>
  C5, as the code has it. If the file is absent or \<open>json.load\<close> rejects its
  text, the construction returns a store with the empty sequence, and so it
  does for a document that is an empty object or an empty string. If the
  document is a list of objects that each have the five members, whatever
  their values, the construction returns a store with one Task for each
  record, in the order of the file: the Task at a position has the name,
  description, priority and due date of the record at that position, and its
  id, or a generated id when the id of the record is falsy. For every other
  document the construction raises \<open>KeyError\<close> or \<open>TypeError\<close>.
\<close>

theorem load_tasks_recovery:
  "(files w f = Absent \<or> files w f = Garbled \<longrightarrow> TaskManager_init f rnd w = Inr (f, []))
   \<and> (files w f = Document (JDict []) \<or> files w f = Document (JStr []) \<longrightarrow>
        TaskManager_init f rnd w = Inr (f, []))
   \<and> (files w f = Document (JList items) \<and> list_all has_members items \<longrightarrow>
        (\<exists>objs. TaskManager_init f rnd w = Inr (f, objs)
           \<and> objs = map (\<lambda>(j, v). record_task v (rnd j)) (enumerate 0 items)
           \<and> length objs = length items
           \<and> (\<forall>j<length items.
                 attr_name (objs ! j) = member (items ! j) ''name''
                 \<and> attr_description (objs ! j) = member (items ! j) ''description''
                 \<and> attr_priority (objs ! j) = member (items ! j) ''priority''
                 \<and> attr_due_date (objs ! j) = member (items ! j) ''due_date''
                 \<and> attr_id (objs ! j) =
                     (if truthy (member (items ! j) ''id'') then member (items ! j) ''id''
                      else JStr (str_lit (uuid_str (uuid4 (rnd j))))))))
   \<and> (files w f = Document data \<and> data \<noteq> JDict [] \<and> data \<noteq> JStr []
        \<and> (\<forall>xs. data = JList xs \<longrightarrow> \<not> list_all has_members xs) \<longrightarrow>
        (\<exists>e. TaskManager_init f rnd w = Inl e \<and> (e = TypeError \<or> (\<exists>k. e = KeyError k))))"
proof (intro conjI impI)
  assume "files w f = Absent \<or> files w f = Garbled"
  then show "TaskManager_init f rnd w = Inr (f, [])"
    by (auto simp: TaskManager_init_def load_tasks_def)
next
  assume "files w f = Document (JDict []) \<or> files w f = Document (JStr [])"
  then show "TaskManager_init f rnd w = Inr (f, [])"
    by (auto simp: TaskManager_init_def load_tasks_def tasks_of_data_def and_then_def)
next
  assume b: "files w f = Document data \<and> data \<noteq> JDict [] \<and> data \<noteq> JStr []
        \<and> (\<forall>xs. data = JList xs \<longrightarrow> \<not> list_all has_members xs)"
  then obtain e where "tasks_of_data data rnd = Inl e" "e = TypeError \<or> (\<exists>k. e = KeyError k)"
    using tasks_of_other [of data rnd] by blast
  with b show "\<exists>e. TaskManager_init f rnd w = Inl e \<and> (e = TypeError \<or> (\<exists>k. e = KeyError k))"
    by (simp add: TaskManager_init_def load_tasks_def)
next
  assume a: "files w f = Document (JList items) \<and> list_all has_members items"
  define objs where "objs = map (\<lambda>(j, v). record_task v (rnd j)) (enumerate 0 items)"
  from a have init: "TaskManager_init f rnd w = Inr (f, objs)"
    by (simp add: TaskManager_init_def load_tasks_def tasks_of_records objs_def)
  have len: "length objs = length items"
    by (simp add: objs_def)
  have nth: "objs ! j = record_task (items ! j) (rnd j)" if "j < length items" for j
    using that by (simp add: objs_def nth_enumerate_eq)
  have fields: "\<forall>j<length items.
                 attr_name (objs ! j) = member (items ! j) ''name''
                 \<and> attr_description (objs ! j) = member (items ! j) ''description''
                 \<and> attr_priority (objs ! j) = member (items ! j) ''priority''
                 \<and> attr_due_date (objs ! j) = member (items ! j) ''due_date''
                 \<and> attr_id (objs ! j) =
                     (if truthy (member (items ! j) ''id'') then member (items ! j) ''id''
                      else JStr (str_lit (uuid_str (uuid4 (rnd j)))))"
  proof (intro allI impI)
    fix j
    assume j: "j < length items"
    show "attr_name (objs ! j) = member (items ! j) ''name''
                 \<and> attr_description (objs ! j) = member (items ! j) ''description''
                 \<and> attr_priority (objs ! j) = member (items ! j) ''priority''
                 \<and> attr_due_date (objs ! j) = member (items ! j) ''due_date''
                 \<and> attr_id (objs ! j) =
                     (if truthy (member (items ! j) ''id'') then member (items ! j) ''id''
                      else JStr (str_lit (uuid_str (uuid4 (rnd j)))))"
      unfolding nth [OF j] by (simp add: record_task_def Task_init_def)
  qed
  show "\<exists>objs. TaskManager_init f rnd w = Inr (f, objs)
           \<and> objs = map (\<lambda>(j, v). record_task v (rnd j)) (enumerate 0 items)
           \<and> length objs = length items
           \<and> (\<forall>j<length items.
                 attr_name (objs ! j) = member (items ! j) ''name''
                 \<and> attr_description (objs ! j) = member (items ! j) ''description''
                 \<and> attr_priority (objs ! j) = member (items ! j) ''priority''
                 \<and> attr_due_date (objs ! j) = member (items ! j) ''due_date''
                 \<and> attr_id (objs ! j) =
                     (if truthy (member (items ! j) ''id'') then member (items ! j) ''id''
                      else JStr (str_lit (uuid_str (uuid4 (rnd j))))))"
    by (intro exI [of _ objs] conjI init len fields) (rule objs_def)
qed

lemma has_members_to_dict: "has_members (to_dict t)"
  by (simp add: has_members_def to_dict_def)

lemma record_task_to_dict: "truthy (attr_id t) \<Longrightarrow> record_task (to_dict t) r = t"
  by (simp add: record_task_def member_def to_dict_def Task_init_def)

theorem load_tasks_recovery_witness:
  "TaskManager_init ''tasks.json'' (\<lambda>k. 0) no_files = Inr (''tasks.json'', [])
   \<and> TaskManager_init ''tasks.json'' (\<lambda>k. 0) (with_file Garbled) = Inr (''tasks.json'', [])
   \<and> TaskManager_init ''tasks.json'' (\<lambda>k. 0) (with_file (Document (JDict [])))
       = Inr (''tasks.json'', [])
   \<and> TaskManager_init ''tasks.json'' (\<lambda>k. 0)
        (with_file (Document (JList [to_dict (obj_of pay_rent), milk_record])))
       = Inr (''tasks.json'',
           [obj_of pay_rent,
            \<lparr> attr_id = JStr (str_lit (uuid_str (uuid4 0))),
              attr_name = JStr (str_lit ''Buy milk''), attr_description = JNull,
              attr_priority = JList [JNum 1],
              attr_due_date = JStr (str_lit ''2024-01-01'') \<rparr>])
   \<and> (\<exists>e. TaskManager_init ''tasks.json'' (\<lambda>k. 0) (with_file (Document (JBool True))) = Inl e)"
proof -
  let ?items = "[to_dict (obj_of pay_rent), milk_record]"
  let ?rnd = "\<lambda>k::nat. 0 :: 128 word"
  have a: "files no_files ''tasks.json'' = Absent \<or> files no_files ''tasks.json'' = Garbled"
    by (simp add: no_files_def)
  have g: "files (with_file Garbled) ''tasks.json'' = Absent
      \<or> files (with_file Garbled) ''tasks.json'' = Garbled"
    by (simp add: with_file_def)
  have e: "files (with_file (Document (JDict []))) ''tasks.json'' = Document (JDict [])
      \<or> files (with_file (Document (JDict []))) ''tasks.json'' = Document (JStr [])"
    by (simp add: with_file_def)
  have d: "files (with_file (Document (JList ?items))) ''tasks.json'' = Document (JList ?items)
      \<and> list_all has_members ?items"
    by (simp add: with_file_def has_members_to_dict) (simp add: has_members_def milk_record_def)
  have o: "files (with_file (Document (JBool True))) ''tasks.json'' = Document (JBool True)
      \<and> JBool True \<noteq> JDict [] \<and> JBool True \<noteq> JStr []
      \<and> (\<forall>xs. JBool True = JList xs \<longrightarrow> \<not> list_all has_members xs)"
    by (simp add: with_file_def)
  have p: "truthy (attr_id (obj_of pay_rent))"
    by (simp add: obj_of_def pay_rent_def)
  have ts: "map (\<lambda>(j, v). record_task v (?rnd j)) (enumerate 0 ?items)
      = [obj_of pay_rent,
            \<lparr> attr_id = JStr (str_lit (uuid_str (uuid4 0))),
              attr_name = JStr (str_lit ''Buy milk''), attr_description = JNull,
              attr_priority = JList [JNum 1],
              attr_due_date = JStr (str_lit ''2024-01-01'') \<rparr>]"
    by (simp add: record_task_to_dict [OF p])
      (simp add: record_task_def member_def milk_record_def Task_init_def)
  from load_tasks_recovery [of no_files "''tasks.json''" ?rnd "[]" JNull] a
  have 1: "TaskManager_init ''tasks.json'' ?rnd no_files = Inr (''tasks.json'', [])"
    by blast
  from load_tasks_recovery [of "with_file Garbled" "''tasks.json''" ?rnd "[]" JNull] g
  have 2: "TaskManager_init ''tasks.json'' ?rnd (with_file Garbled) = Inr (''tasks.json'', [])"
    by blast
  from load_tasks_recovery [of "with_file (Document (JDict []))" "''tasks.json''" ?rnd "[]" JNull] e
  have 3: "TaskManager_init ''tasks.json'' ?rnd (with_file (Document (JDict [])))
      = Inr (''tasks.json'', [])"
    by blast
  from load_tasks_recovery [of "with_file (Document (JList ?items))" "''tasks.json''" ?rnd ?items JNull] d
  have 4: "TaskManager_init ''tasks.json'' ?rnd (with_file (Document (JList ?items)))
      = Inr (''tasks.json'', map (\<lambda>(j, v). record_task v (?rnd j)) (enumerate 0 ?items))"
    by blast
  from load_tasks_recovery [of "with_file (Document (JBool True))" "''tasks.json''" ?rnd "[]" "JBool True"] o
  have 5: "\<exists>e. TaskManager_init ''tasks.json'' ?rnd (with_file (Document (JBool True))) = Inl e"
    by blast
  from 1 2 3 4 5 show ?thesis
    by (simp only: ts simp_thms)
qed

text \<open>
  C5, as stated, fails on a document that \<open>json.load\<close> accepts and that is not
  a list of such records: a record without the member \<open>name\<close> raises \<open>KeyError\<close>,
  a number in place of the list or of a record raises \<open>TypeError\<close>, and the
  \<open>except\<close> clause catches neither.
\<close>

theorem load_tasks_shape_counterexample:
  "TaskManager_init ''tasks.json'' (\<lambda>k. 0)
     (with_file (Document (JList [JDict [(str_lit ''id'', JStr (str_lit ''1''))]])))
     = Inl (KeyError (str_lit ''name''))
   \<and> TaskManager_init ''tasks.json'' (\<lambda>k. 0) (with_file (Document (JNum 5))) = Inl TypeError
   \<and> TaskManager_init ''tasks.json'' (\<lambda>k. 0) (with_file (Document (JList [JNum 5]))) = Inl TypeError"
  by (simp add: TaskManager_init_def load_tasks_def tasks_of_data_def and_then_def read_record_def
      with_file_def no_files_def)

subsection \<open>Saving and loading again\<close>











end
